theory Spec2Isabelle
  imports Main "HOL-Library.Word"
begin

unbundle bit_operations_syntax

section \<open>MyBlobFS: table rows of a MySQL table as read-only files\<close>

text \<open>
  The development follows \<^verbatim>\<open>src/src/myblobfs.c\<close> (the 2009 revision). The 2008 revision
  \<^verbatim>\<open>src/myblobfs.c\<close> is embedded only where it differs in the functions looked at
  (its validators carry the suffix \<open>_2008\<close>).

  Conventions of the embedding.
  \<^item> A \<^verbatim>\<open>const char *\<close> argument is the list of the characters before the terminating
    NUL, so \<^verbatim>\<open>strlen\<close> is \<open>length\<close>, \<^verbatim>\<open>strcmp(a, b) == 0\<close> is \<open>a = b\<close> and
    \<^verbatim>\<open>str + 1\<close> is the tail of a non-empty list.
  \<^item> The program never calls \<^verbatim>\<open>setlocale\<close>, so the \<^verbatim>\<open><ctype.h>\<close> predicates are those
    of the "C" locale.
  \<^item> Integer widths are those of Linux on x86-64 (LP64): \<^verbatim>\<open>int\<close> has 32 bits,
    \<^verbatim>\<open>size_t\<close>, \<^verbatim>\<open>unsigned long\<close> and \<^verbatim>\<open>off_t\<close> have 64 bits.
\<close>

subsection \<open>Character classes of the "C" locale\<close>

definition isdigit :: "char \<Rightarrow> bool" where
  "isdigit c = (48 \<le> (of_char c :: nat) \<and> (of_char c :: nat) \<le> 57)"

definition isupper :: "char \<Rightarrow> bool" where
  "isupper c = (65 \<le> (of_char c :: nat) \<and> (of_char c :: nat) \<le> 90)"

definition islower :: "char \<Rightarrow> bool" where
  "islower c = (97 \<le> (of_char c :: nat) \<and> (of_char c :: nat) \<le> 122)"

definition isalnum :: "char \<Rightarrow> bool" where
  "isalnum c = (isupper c \<or> islower c \<or> isdigit c)"

subsection \<open>Identifier validators\<close>

text \<open>
  \<^verbatim>\<open>for (i = 0; i < strlen(str); i++) { if (!isdigit(str[i])) return 0; } return 1;\<close>
  The loop of \<^verbatim>\<open>is_uint\<close>, started at index \<open>i\<close>.
\<close>

function is_uint_loop :: "string \<Rightarrow> nat \<Rightarrow> bool" where
  "is_uint_loop str i =
     (if i < length str
      then (if \<not> isdigit (str ! i) then False else is_uint_loop str (i + 1))
      else True)"
  by pat_completeness auto
termination
  by (relation "measure (\<lambda>(str, i). length str - i)") auto

declare is_uint_loop.simps [simp del]

definition is_uint :: "string \<Rightarrow> bool" where
  "is_uint str = (if length str = 0 then False else is_uint_loop str 0)"

text \<open>The loop of \<^verbatim>\<open>is_valid_ident\<close>: \<^verbatim>\<open>if (!isalnum(str[i]) && (str[i] != '_')) return 0;\<close>\<close>

function is_valid_ident_loop :: "string \<Rightarrow> nat \<Rightarrow> bool" where
  "is_valid_ident_loop str i =
     (if i < length str
      then (if \<not> isalnum (str ! i) \<and> str ! i \<noteq> CHR ''_'' then False
            else is_valid_ident_loop str (i + 1))
      else True)"
  by pat_completeness auto
termination
  by (relation "measure (\<lambda>(str, i). length str - i)") auto

declare is_valid_ident_loop.simps [simp del]

definition is_valid_ident :: "string \<Rightarrow> bool" where
  "is_valid_ident str = (if length str = 0 then False else is_valid_ident_loop str 0)"

text \<open>
  The 2008 revision has no test for the empty string, and its identifier loop rejects a
  character when \<^verbatim>\<open>!isalnum(str[i]) || (str[i] != '_')\<close>.
\<close>

definition is_uint_2008 :: "string \<Rightarrow> bool" where
  "is_uint_2008 str = is_uint_loop str 0"

function is_valid_ident_loop_2008 :: "string \<Rightarrow> nat \<Rightarrow> bool" where
  "is_valid_ident_loop_2008 str i =
     (if i < length str
      then (if \<not> isalnum (str ! i) \<or> str ! i \<noteq> CHR ''_'' then False
            else is_valid_ident_loop_2008 str (i + 1))
      else True)"
  by pat_completeness auto
termination
  by (relation "measure (\<lambda>(str, i). length str - i)") auto

declare is_valid_ident_loop_2008.simps [simp del]

definition is_valid_ident_2008 :: "string \<Rightarrow> bool" where
  "is_valid_ident_2008 str = is_valid_ident_loop_2008 str 0"

subsection \<open>Path validity and classification\<close>

text \<open>\<^verbatim>\<open>path[0]\<close>: the first character, which for the empty string is the terminating NUL.\<close>

definition first_char :: "string \<Rightarrow> char" where
  "first_char str = (case str of [] \<Rightarrow> CHR 0x00 | c # _ \<Rightarrow> c)"

definition is_valid_path :: "string \<Rightarrow> bool" where
  "is_valid_path path =
     (if path = ''/'' then True
      else if first_char path \<noteq> CHR ''/'' then False
      else if \<not> is_uint (tl path) then False
      else True)"

definition is_valid_path_2008 :: "string \<Rightarrow> bool" where
  "is_valid_path_2008 path =
     (if path = ''/'' then True
      else if first_char path \<noteq> CHR ''/'' then False
      else if \<not> is_uint_2008 (tl path) then False
      else True)"

text \<open>
  The source has no function that returns the kind of a path. \<^verbatim>\<open>my_getattr\<close>,
  \<^verbatim>\<open>my_open\<close> and \<^verbatim>\<open>my_read\<close> all classify their argument by the same three steps:
  \<^verbatim>\<open>if (!is_valid_path(path)) return -ENOENT;\<close>, then \<^verbatim>\<open>strcmp(path, "/") == 0\<close> for the
  directory, then \<^verbatim>\<open>strcpy(filename, path + 1)\<close> for the key of the row. \<open>resolve\<close> is
  that sequence.
\<close>

datatype resolved = Invalid | RootDirectory | RowKey string

definition resolve :: "string \<Rightarrow> resolved" where
  "resolve path =
     (if \<not> is_valid_path path then Invalid
      else if path = ''/'' then RootDirectory
      else RowKey (tl path))"

subsection \<open>Constants of the system headers (Linux, x86-64)\<close>

definition ENOENT :: int where "ENOENT = 2"
definition EAGAIN :: int where "EAGAIN = 11"
definition ENOMEM :: int where "ENOMEM = 12"
definition EISDIR :: int where "EISDIR = 21"
definition EROFS :: int where "EROFS = 30"

definition O_RDONLY :: "32 word" where "O_RDONLY = 0"
definition O_WRONLY :: "32 word" where "O_WRONLY = 1"
definition O_RDWR :: "32 word" where "O_RDWR = 2"
definition O_ACCMODE :: "32 word" where "O_ACCMODE = 3"

text \<open>
  Octal 0170000, 0040000, 0100000; the permission masks 0777, 0555 (read and execute for
  user, group and others), 0444 (read for all) and 0111 (execute for all).
\<close>

definition S_IFMT :: "32 word" where "S_IFMT = 0xF000"
definition S_IFDIR :: "32 word" where "S_IFDIR = 0x4000"
definition S_IFREG :: "32 word" where "S_IFREG = 0x8000"
definition mode_0777 :: "32 word" where "mode_0777 = 0x1FF"
definition mode_0555 :: "32 word" where "mode_0555 = 0x16D"
definition mode_0444 :: "32 word" where "mode_0444 = 0x124"
definition mode_0111 :: "32 word" where "mode_0111 = 0x49"

subsection \<open>\<^verbatim>\<open>atoi\<close> of the C library\<close>

text \<open>
  glibc: \<^verbatim>\<open>atoi(s)\<close> is \<^verbatim>\<open>(int) strtol(s, NULL, 10)\<close>. \<^verbatim>\<open>strtol\<close> skips white space, reads an
  optional sign and the longest run of decimal digits, yields 0 when there is no digit and
  saturates at \<^verbatim>\<open>LONG_MIN\<close> and \<^verbatim>\<open>LONG_MAX\<close>; the conversion to \<^verbatim>\<open>int\<close> keeps the low 32
  bits. It has no way to report that nothing was parsed.
\<close>

definition isspace :: "char \<Rightarrow> bool" where
  "isspace c = (of_char c = (32::nat) \<or> (9 \<le> (of_char c :: nat) \<and> (of_char c :: nat) \<le> 13))"

fun digits_value :: "nat \<Rightarrow> string \<Rightarrow> nat" where
  "digits_value acc [] = acc"
| "digits_value acc (c # cs) =
     (if isdigit c then digits_value (acc * 10 + (of_char c - 48)) cs else acc)"

definition strtol :: "string \<Rightarrow> int" where
  "strtol s =
     (let s1 = dropWhile isspace s in
      case s1 of
        [] \<Rightarrow> 0
      | c # cs \<Rightarrow>
          if c = CHR ''-'' then max (- (2 ^ 63)) (- int (digits_value 0 cs))
          else if c = CHR ''+'' then min (2 ^ 63 - 1) (int (digits_value 0 cs))
          else min (2 ^ 63 - 1) (int (digits_value 0 s1)))"

definition atoi :: "string \<Rightarrow> int" where
  "atoi s = sint (word_of_int (strtol s) :: 32 word)"

subsection \<open>Configuration, environment and results\<close>

text \<open>The globals \<^verbatim>\<open>my_table\<close>, \<^verbatim>\<open>my_name_field\<close> and \<^verbatim>\<open>my_data_field\<close>, set once in \<^verbatim>\<open>main\<close>.\<close>

record config =
  my_table :: string
  my_name_field :: string
  my_data_field :: string

text \<open>
  A column value of a fetched row is a \<^verbatim>\<open>char *\<close>: \<open>None\<close> is the NULL pointer that the
  client library gives for an SQL NULL, \<open>Some bs\<close> the bytes of the value, whose number
  \<^verbatim>\<open>mysql_fetch_lengths\<close> reports. Every query of the program selects one column, so a
  row is its column 0.
\<close>

type_synonym field = "string option"

text \<open>
  What an operation gets from outside.
  \<^item> \<open>malloc_ok n\<close>: the \<open>n\<close>-th call of \<^verbatim>\<open>malloc\<close> in the operation (counted from 0)
    returns a non-NULL pointer.
  \<^item> \<open>run_query q\<close>: \<^verbatim>\<open>mysql_real_query\<close> on the text \<open>q\<close> followed by
    \<^verbatim>\<open>mysql_use_result\<close>; \<open>None\<close> is the NULL result handle, \<open>Some rows\<close> the rows that
    successive calls of \<^verbatim>\<open>mysql_fetch_row\<close> deliver before it returns NULL.
  \<^item> \<open>getuid\<close>, \<open>getgid\<close>: the real user and group of the process.
\<close>

record env =
  malloc_ok :: "nat \<Rightarrow> bool"
  run_query :: "string \<Rightarrow> field list option"
  getuid :: "32 word"
  getgid :: "32 word"

text \<open>
  The fields of \<^verbatim>\<open>struct stat\<close> that the program assigns; \<^verbatim>\<open>memset\<close> sets all of them
  (and the others, which are never assigned) to zero.
\<close>

record stat =
  st_mode :: "32 word"
  st_nlink :: "64 word"
  st_size :: int
  st_uid :: "32 word"
  st_gid :: "32 word"

definition zero_stat :: stat where
  "zero_stat = \<lparr>st_mode = 0, st_nlink = 0, st_size = 0, st_uid = 0, st_gid = 0\<rparr>"

definition file_type :: "stat \<Rightarrow> 32 word" where
  "file_type sb = st_mode sb AND S_IFMT"

definition permissions :: "stat \<Rightarrow> 32 word" where
  "permissions sb = st_mode sb AND mode_0777"

text \<open>
  An operation either returns an \<^verbatim>\<open>int\<close> together with what it wrote through its output
  pointer, or its behaviour is undefined (\<open>Fault\<close>): it dereferences NULL or reads
  outside the fetched value.
\<close>

datatype 'a result = Fault | Returns (code: int) (payload: 'a)

subsection \<open>Query texts\<close>

text \<open>
  \<^verbatim>\<open>sprintf\<close> with the patterns \<^verbatim>\<open>"SELECT %s FROM %s WHERE %s = %s"\<close>,
  \<^verbatim>\<open>"SELECT %s FROM %s ORDER BY %s"\<close> and \<^verbatim>\<open>"LENGTH(%s)"\<close>.
\<close>

definition read_qp :: "string \<Rightarrow> string \<Rightarrow> string \<Rightarrow> string \<Rightarrow> string" where
  "read_qp a b c d = ''SELECT '' @ a @ '' FROM '' @ b @ '' WHERE '' @ c @ '' = '' @ d"

definition readdir_qp :: "string \<Rightarrow> string \<Rightarrow> string \<Rightarrow> string" where
  "readdir_qp a b c = ''SELECT '' @ a @ '' FROM '' @ b @ '' ORDER BY '' @ c"

definition size_fp :: "string \<Rightarrow> string" where
  "size_fp a = ''LENGTH('' @ a @ '')''"

subsection \<open>\<^verbatim>\<open>my_getattr\<close>\<close>

text \<open>
  The three allocations are \<^verbatim>\<open>filename\<close>, \<^verbatim>\<open>my_data_field_size\<close> and \<^verbatim>\<open>query\<close>. The
  branch for a failed second allocation assigns \<^verbatim>\<open>result = ENOENT\<close>, without the minus
  sign of the other branches. \<^verbatim>\<open>atoi(row[0])\<close> dereferences \<^verbatim>\<open>row[0]\<close>.
\<close>

definition my_getattr :: "config \<Rightarrow> env \<Rightarrow> string \<Rightarrow> stat \<Rightarrow> stat result" where
  "my_getattr cfg e path stbuf =
     (if \<not> is_valid_path path then Returns (- ENOENT) stbuf
      else if path = ''/'' then
        Returns 0 (zero_stat\<lparr>st_mode := S_IFDIR OR mode_0555, st_nlink := 2,
                             st_uid := getuid e, st_gid := getgid e\<rparr>)
      else if \<not> malloc_ok e 0 then Returns (- ENOENT) zero_stat
      else
        let filename = tl path in
        if \<not> malloc_ok e 1 then Returns ENOENT zero_stat
        else
          let my_data_field_size = size_fp (my_data_field cfg) in
          if \<not> malloc_ok e 2 then Returns (- ENOENT) zero_stat
          else
            case run_query e (read_qp my_data_field_size (my_table cfg) (my_name_field cfg) filename) of
              None \<Rightarrow> Returns (- ENOENT) zero_stat
            | Some [] \<Rightarrow> Returns (- ENOENT) zero_stat
            | Some (None # _) \<Rightarrow> Fault
            | Some (Some row0 # _) \<Rightarrow>
                Returns 0 (zero_stat\<lparr>st_mode := S_IFREG OR mode_0555, st_nlink := 1,
                                     st_size := atoi row0,
                                     st_uid := getuid e, st_gid := getgid e\<rparr>))"

subsection \<open>\<^verbatim>\<open>my_readdir\<close>\<close>

text \<open>
  The calls that \<^verbatim>\<open>my_readdir\<close> makes, in the order in which it makes them: \<^verbatim>\<open>filler\<close>
  with the name it is given, \<^verbatim>\<open>malloc\<close> for the query buffer, and the execution of a
  query text. The value that \<^verbatim>\<open>filler\<close> returns is not looked at by the source.
\<close>

datatype event = Filler field | Malloc | Query string

text \<open>\<^verbatim>\<open>while (row = mysql_fetch_row(res)) { filler(buf, row[0], NULL, 0); }\<close>\<close>

fun readdir_loop :: "field list \<Rightarrow> event list" where
  "readdir_loop [] = []"
| "readdir_loop (row0 # rows) = Filler row0 # readdir_loop rows"

definition my_readdir :: "config \<Rightarrow> env \<Rightarrow> string \<Rightarrow> event list \<times> int" where
  "my_readdir cfg e path =
     (if path \<noteq> ''/'' then ([], - ENOENT)
      else
        let tr = [Filler (Some ''.''), Filler (Some ''..''), Malloc] in
        if \<not> malloc_ok e 0 then (tr, - ENOMEM)
        else
          let query = readdir_qp (my_name_field cfg) (my_table cfg) (my_name_field cfg) in
          case run_query e query of
            None \<Rightarrow> (tr @ [Query query], - ENOENT)
          | Some rows \<Rightarrow> (tr @ [Query query] @ readdir_loop rows, 0))"

text \<open>The names handed to \<^verbatim>\<open>filler\<close>, in order.\<close>

fun emitted :: "event list \<Rightarrow> field list" where
  "emitted [] = []"
| "emitted (Filler n # evs) = n # emitted evs"
| "emitted (_ # evs) = emitted evs"

subsection \<open>\<^verbatim>\<open>my_open\<close>\<close>

text \<open>
  The test for write access is \<^verbatim>\<open>if (fi->flags & O_RDONLY == 0)\<close>. In C \<^verbatim>\<open>==\<close> binds
  tighter than \<^verbatim>\<open>&\<close>, so the condition is \<^verbatim>\<open>fi->flags & (O_RDONLY == 0)\<close>, and the
  comparison has the value 1 or 0. The two allocations are \<^verbatim>\<open>filename\<close> and \<^verbatim>\<open>query\<close>.
\<close>

definition my_open :: "config \<Rightarrow> env \<Rightarrow> string \<Rightarrow> 32 word \<Rightarrow> int" where
  "my_open cfg e path flags =
     (if \<not> is_valid_path path then - ENOENT
      else if flags AND (if O_RDONLY = 0 then 1 else 0) \<noteq> 0 then - EROFS
      else if path = ''/'' then 0
      else if \<not> malloc_ok e 0 then - ENOMEM
      else
        let filename = tl path in
        if \<not> malloc_ok e 1 then - ENOMEM
        else
          case run_query e (read_qp ''1'' (my_table cfg) (my_name_field cfg) filename) of
            None \<Rightarrow> - EAGAIN
          | Some [] \<Rightarrow> - ENOENT
          | Some (_ # _) \<Rightarrow> 0)"

subsection \<open>\<^verbatim>\<open>my_read\<close>\<close>

text \<open>
  \<^verbatim>\<open>size\<close> is a \<^verbatim>\<open>size_t\<close> and the function returns \<^verbatim>\<open>int\<close>: \<^verbatim>\<open>size = -ENOENT\<close> converts
  an \<^verbatim>\<open>int\<close> to 64 bits, \<^verbatim>\<open>return size\<close> keeps the low 32 bits and reads them as signed.
\<close>

definition size_t_of_int :: "int \<Rightarrow> 64 word" where
  "size_t_of_int i = word_of_int i"

definition int_of_size_t :: "64 word \<Rightarrow> int" where
  "int_of_size_t w = sint (ucast w :: 32 word)"

text \<open>
  \<^verbatim>\<open>offset\<close> is an \<^verbatim>\<open>off_t\<close>; in \<^verbatim>\<open>offset <= len\<close>, \<^verbatim>\<open>offset + size > len\<close> and
  \<^verbatim>\<open>len - offset\<close> it meets an \<^verbatim>\<open>unsigned long\<close> or a \<^verbatim>\<open>size_t\<close>, so it is converted to
  unsigned 64 bits and the arithmetic is modulo \<open>2 ^ 64\<close>; the parameter here is the
  converted value. \<^verbatim>\<open>buf\<close> is the buffer of \<^verbatim>\<open>size\<close> bytes that the caller hands over. The
  payload of the result is what \<^verbatim>\<open>memcpy(buf, row[0] + offset, size)\<close> wrote to \<^verbatim>\<open>buf\<close>. A copy that would read beyond the \<^verbatim>\<open>len\<close> bytes of the value is
  \<open>Fault\<close>. For a NULL value \<^verbatim>\<open>len\<close> is 0 and the copy has length 0. The two allocations
  are \<^verbatim>\<open>filename\<close> and \<^verbatim>\<open>query\<close>.
\<close>

definition my_read :: "config \<Rightarrow> env \<Rightarrow> string \<Rightarrow> 64 word \<Rightarrow> 64 word \<Rightarrow> string result" where
  "my_read cfg e path sz offset =
     (if \<not> is_valid_path path then Returns (- ENOENT) []
      else if path = ''/'' then Returns (- EISDIR) []
      else if \<not> malloc_ok e 0 then Returns (int_of_size_t (size_t_of_int (- ENOMEM))) []
      else
        let filename = tl path in
        if \<not> malloc_ok e 1 then Returns (int_of_size_t (size_t_of_int (- ENOMEM))) []
        else
          case run_query e (read_qp (my_data_field cfg) (my_table cfg) (my_name_field cfg) filename) of
            None \<Rightarrow> Returns (int_of_size_t (size_t_of_int (- ENOMEM))) []
          | Some [] \<Rightarrow> Returns (int_of_size_t (size_t_of_int (- ENOENT))) []
          | Some (row0 # _) \<Rightarrow>
              let bytes = (case row0 of None \<Rightarrow> [] | Some bs \<Rightarrow> bs);
                  len = (of_nat (length bytes) :: 64 word)
              in
                if offset \<le> len then
                  let sz' = (if offset + sz > len then len - offset else sz) in
                  if unat offset + unat sz' \<le> length bytes
                  then Returns (int_of_size_t sz') (take (unat sz') (drop (unat offset) bytes))
                  else Fault
                else Returns (int_of_size_t 0) [])"

subsection \<open>A mounted table\<close>

text \<open>
  Table \<^verbatim>\<open>docs\<close> with the columns \<^verbatim>\<open>id\<close> and \<^verbatim>\<open>body\<close> and the single row
  \<^verbatim>\<open>(1, 'hello')\<close>: the answers of the server to the four queries that name this row or
  list the table; every other query of the program names another key and has an empty
  result. All allocations succeed.
\<close>

definition scenario_cfg :: config where
  "scenario_cfg = \<lparr>my_table = ''docs'', my_name_field = ''id'', my_data_field = ''body''\<rparr>"

definition scenario_db :: "string \<Rightarrow> field list option" where
  "scenario_db q =
     (if q = ''SELECT LENGTH(body) FROM docs WHERE id = 1'' then Some [Some ''5'']
      else if q = ''SELECT 1 FROM docs WHERE id = 1'' then Some [Some ''1'']
      else if q = ''SELECT body FROM docs WHERE id = 1'' then Some [Some ''hello'']
      else if q = ''SELECT id FROM docs ORDER BY id'' then Some [Some ''1'']
      else Some [])"

definition scenario_env :: env where
  "scenario_env = \<lparr>malloc_ok = (\<lambda>n. True), run_query = scenario_db, getuid = 1000, getgid = 1000\<rparr>"

text \<open>
  Variations of it: the \<open>k\<close>-th allocation of an operation fails; the server gives no
  result handle; the \<^verbatim>\<open>body\<close> of row 1 is an SQL NULL, so that the server answers the length
  query for row 1 with the value NULL (\<^verbatim>\<open>LENGTH(NULL)\<close> is NULL).
\<close>

definition fails_at :: "nat \<Rightarrow> nat \<Rightarrow> bool" where
  "fails_at k n = (n \<noteq> k)"

definition no_result :: "string \<Rightarrow> field list option" where
  "no_result q = None"

definition null_length_db :: "string \<Rightarrow> field list option" where
  "null_length_db q =
     (if q = ''SELECT LENGTH(body) FROM docs WHERE id = 1'' then Some [None]
      else scenario_db q)"

subsection \<open>Reference notions for the statements\<close>

text \<open>The number that a string of decimal digits denotes.\<close>

definition decimal :: "string \<Rightarrow> nat" where
  "decimal s = foldl (\<lambda>n c. 10 * n + (of_char c - 48)) 0 s"

section \<open>Properties of the validators\<close>

lemma is_uint_loop_drop: "is_uint_loop str i = list_all isdigit (drop i str)"
proof (induction str i rule: is_uint_loop.induct)
  case (1 str i)
  show ?case
  proof (cases "i < length str")
    case True
    then have d: "drop i str = str ! i # drop (i + 1) str"
      by (simp add: Cons_nth_drop_Suc)
    show ?thesis
    proof (cases "isdigit (str ! i)")
      case True
      with \<open>i < length str\<close> "1.IH" d show ?thesis
        by (subst is_uint_loop.simps) simp
    next
      case False
      with \<open>i < length str\<close> d show ?thesis
        by (subst is_uint_loop.simps) simp
    qed
  next
    case False
    then show ?thesis
      by (subst is_uint_loop.simps) simp
  qed
qed

lemma is_valid_ident_loop_drop:
  "is_valid_ident_loop str i = list_all (\<lambda>c. isalnum c \<or> c = CHR ''_'') (drop i str)"
proof (induction str i rule: is_valid_ident_loop.induct)
  case (1 str i)
  show ?case
  proof (cases "i < length str")
    case True
    then have d: "drop i str = str ! i # drop (i + 1) str"
      by (simp add: Cons_nth_drop_Suc)
    show ?thesis
    proof (cases "isalnum (str ! i) \<or> str ! i = CHR ''_''")
      case True
      with \<open>i < length str\<close> "1.IH" d show ?thesis
        by (subst is_valid_ident_loop.simps) auto
    next
      case False
      with \<open>i < length str\<close> d show ?thesis
        by (subst is_valid_ident_loop.simps) simp
    qed
  next
    case False
    then show ?thesis
      by (subst is_valid_ident_loop.simps) simp
  qed
qed

lemma is_uint_iff: "is_uint s \<longleftrightarrow> s \<noteq> [] \<and> list_all isdigit s"
  by (simp add: is_uint_def is_uint_loop_drop)

lemma char_range:
  assumes "hi < 256"
  shows "{c. lo \<le> (of_char c :: nat) \<and> (of_char c :: nat) \<le> hi} = char_of ` {lo..hi}"
proof (rule set_eqI, rule iffI)
  fix c
  assume "c \<in> {c. lo \<le> (of_char c :: nat) \<and> (of_char c :: nat) \<le> hi}"
  then have "(of_char c :: nat) \<in> {lo..hi}"
    by simp
  then have "char_of (of_char c :: nat) \<in> char_of ` {lo..hi}"
    by (rule imageI)
  then show "c \<in> char_of ` {lo..hi}"
    by simp
next
  fix c
  assume "c \<in> char_of ` {lo..hi}"
  then obtain n where n: "n \<in> {lo..hi}" "c = char_of n"
    by blast
  with assms have "n < 256"
    by simp
  then have "of_char (char_of n) = n"
    by simp
  with n show "c \<in> {c. lo \<le> (of_char c :: nat) \<and> (of_char c :: nat) \<le> hi}"
    by simp
qed

lemma isdigit_chars: "isdigit c \<longleftrightarrow> c \<in> set ''0123456789''"
proof -
  have "isdigit c \<longleftrightarrow> c \<in> char_of ` {48..(57::nat)}"
    using char_range [of 57 48] by (auto simp: isdigit_def)
  also have "char_of ` {48..(57::nat)} = set ''0123456789''"
    by code_simp
  finally show ?thesis .
qed

lemma isupper_chars: "isupper c \<longleftrightarrow> c \<in> set ''ABCDEFGHIJKLMNOPQRSTUVWXYZ''"
proof -
  have "isupper c \<longleftrightarrow> c \<in> char_of ` {65..(90::nat)}"
    using char_range [of 90 65] by (auto simp: isupper_def)
  also have "char_of ` {65..(90::nat)} = set ''ABCDEFGHIJKLMNOPQRSTUVWXYZ''"
    by code_simp
  finally show ?thesis .
qed

lemma islower_chars: "islower c \<longleftrightarrow> c \<in> set ''abcdefghijklmnopqrstuvwxyz''"
proof -
  have "islower c \<longleftrightarrow> c \<in> char_of ` {97..(122::nat)}"
    using char_range [of 122 97] by (auto simp: islower_def)
  also have "char_of ` {97..(122::nat)} = set ''abcdefghijklmnopqrstuvwxyz''"
    by code_simp
  finally show ?thesis .
qed

lemma ident_char_chars:
  "isalnum c \<or> c = CHR ''_'' \<longleftrightarrow>
   c \<in> set ''ABCDEFGHIJKLMNOPQRSTUVWXYZabcdefghijklmnopqrstuvwxyz0123456789_''"
proof -
  have e: "''ABCDEFGHIJKLMNOPQRSTUVWXYZabcdefghijklmnopqrstuvwxyz0123456789_'' =
        ''ABCDEFGHIJKLMNOPQRSTUVWXYZ'' @ ''abcdefghijklmnopqrstuvwxyz'' @ ''0123456789'' @ ''_''"
    by simp
  have "isalnum c \<or> c = CHR ''_'' \<longleftrightarrow>
     c \<in> set (''ABCDEFGHIJKLMNOPQRSTUVWXYZ'' @ ''abcdefghijklmnopqrstuvwxyz'' @ ''0123456789'' @ ''_'')"
    unfolding set_append Un_iff isalnum_def isupper_chars islower_chars isdigit_chars
    by simp
  then show ?thesis
    by (simp only: e)
qed

text \<open>The 2008 revision of the validators: what its two functions compute.\<close>

lemma is_uint_2008_iff: "is_uint_2008 s \<longleftrightarrow> list_all isdigit s"
  by (simp add: is_uint_2008_def is_uint_loop_drop)

lemma is_uint_2008_empty: "is_uint_2008 []"
  by (simp add: is_uint_2008_iff)

lemma is_valid_ident_2008_iff: "is_valid_ident_2008 s \<longleftrightarrow> s = []"
proof (cases s)
  case Nil
  then show ?thesis
    by (simp add: is_valid_ident_2008_def is_valid_ident_loop_2008.simps)
next
  case (Cons c cs)
  have "\<not> isalnum c \<or> c \<noteq> CHR ''_''"
    by (auto simp: isalnum_def isupper_def islower_def isdigit_def)
  with Cons show ?thesis
    by (simp add: is_valid_ident_2008_def is_valid_ident_loop_2008.simps [of "c # cs" 0])
qed

text \<open>
  Claim C1. For every string \<open>s\<close>, \<open>is_valid_ident s\<close> is true if and only if \<open>s\<close> is
  non-empty and every character of \<open>s\<close> is alphanumeric (a letter or a decimal digit of the
  "C" locale) or the underscore.
\<close>

theorem is_valid_ident_iff:
  "is_valid_ident s \<longleftrightarrow>
     s \<noteq> [] \<and>
     list_all (\<lambda>c. c \<in> set ''ABCDEFGHIJKLMNOPQRSTUVWXYZabcdefghijklmnopqrstuvwxyz0123456789_'') s"
  by (simp add: is_valid_ident_def is_valid_ident_loop_drop ident_char_chars [abs_def])

text \<open>
  Claim C2. For every string \<open>s\<close>, \<open>is_uint s\<close> is true if and only if \<open>s\<close> is non-empty
  and every character of \<open>s\<close> is a decimal digit; \<open>is_uint ''''\<close> and \<open>is_uint ''12a''\<close> are
  false and \<open>is_uint ''007''\<close> is true.
\<close>

theorem is_uint_spec:
  "(is_uint s \<longleftrightarrow> s \<noteq> [] \<and> list_all (\<lambda>c. c \<in> set ''0123456789'') s)
   \<and> \<not> is_uint ''''
   \<and> \<not> is_uint ''12a''
   \<and> is_uint ''007''"
proof -
  have "is_uint s \<longleftrightarrow> s \<noteq> [] \<and> list_all (\<lambda>c. c \<in> set ''0123456789'') s"
    by (simp add: is_uint_iff isdigit_chars [abs_def])
  moreover have "\<not> is_uint ''''"
    by (simp add: is_uint_iff)
  moreover have "\<not> is_uint ''12a''"
    by (simp add: is_uint_iff isdigit_def)
  moreover have "is_uint ''007''"
    by (simp add: is_uint_iff isdigit_def)
  ultimately show ?thesis
    by blast
qed

section \<open>Path classification\<close>

lemma is_valid_path_iff:
  "is_valid_path p \<longleftrightarrow> p = ''/'' \<or> (\<exists>d. p = CHR ''/'' # d \<and> d \<noteq> [] \<and> list_all isdigit d)"
  by (cases p) (auto simp: is_valid_path_def first_char_def is_uint_iff)

lemma is_valid_path_2008_eq: "is_valid_path_2008 p = is_valid_path p"
  by (cases p) (auto simp: is_valid_path_def is_valid_path_2008_def first_char_def is_uint_iff is_uint_2008_iff)

lemma resolve_root_iff: "resolve p = RootDirectory \<longleftrightarrow> p = ''/''"
  by (simp add: resolve_def is_valid_path_def)

lemma resolve_key_iff:
  "resolve p = RowKey d \<longleftrightarrow> p = CHR ''/'' # d \<and> d \<noteq> [] \<and> list_all isdigit d"
  by (cases p) (auto simp: resolve_def is_valid_path_def first_char_def is_uint_iff)

lemma resolve_invalid_iff:
  "resolve p = Invalid \<longleftrightarrow>
     \<not> (p = ''/'' \<or> (\<exists>d. p = CHR ''/'' # d \<and> d \<noteq> [] \<and> list_all isdigit d))"
  by (simp add: resolve_def is_valid_path_iff)

text \<open>
  Claim C3. A path is classified as the root directory if and only if it is \<open>''/''\<close>, as
  the row key \<open>d\<close> if and only if it is \<open>''/''\<close> followed by the non-empty string of
  decimal digits \<open>d\<close>, and as invalid otherwise; the empty path, \<open>''/abc''\<close>,
  \<open>''/1/2''\<close> and \<open>''//1''\<close> are invalid; every path has one of the three classes, and \<open>is_valid_path\<close>
  holds exactly for the two valid ones.
\<close>

theorem resolve_spec:
  "(resolve p = RootDirectory \<longleftrightarrow> p = ''/'')
   \<and> (resolve p = RowKey d \<longleftrightarrow>
        p = CHR ''/'' # d \<and> d \<noteq> [] \<and> list_all (\<lambda>c. c \<in> set ''0123456789'') d)
   \<and> (resolve p = Invalid \<longleftrightarrow>
        \<not> (p = ''/'' \<or>
           (\<exists>d. p = CHR ''/'' # d \<and> d \<noteq> [] \<and> list_all (\<lambda>c. c \<in> set ''0123456789'') d)))
   \<and> resolve p \<in> {Invalid, RootDirectory, RowKey (tl p)}
   \<and> (is_valid_path p \<longleftrightarrow> resolve p = RootDirectory \<or> resolve p = RowKey (tl p))
   \<and> resolve '''' = Invalid
   \<and> resolve ''/abc'' = Invalid
   \<and> resolve ''/1/2'' = Invalid
   \<and> resolve ''//1'' = Invalid"
proof -
  have d: "isdigit = (\<lambda>c. c \<in> set ''0123456789'')"
    by (rule ext) (rule isdigit_chars)
  have "resolve p \<in> {Invalid, RootDirectory, RowKey (tl p)}"
    by (simp add: resolve_def)
  moreover have "is_valid_path p \<longleftrightarrow> resolve p = RootDirectory \<or> resolve p = RowKey (tl p)"
    by (simp add: resolve_def)
  moreover have "resolve '''' = Invalid"
    by (simp add: resolve_invalid_iff)
  moreover have "resolve ''/abc'' = Invalid"
    by (simp add: resolve_invalid_iff isdigit_def)
  moreover have "resolve ''/1/2'' = Invalid"
    by (simp add: resolve_invalid_iff isdigit_def)
  moreover have "resolve ''//1'' = Invalid"
    by (simp add: resolve_invalid_iff isdigit_def)
  ultimately show ?thesis
    using resolve_root_iff [of p] resolve_key_iff [of p d] resolve_invalid_iff [of p]
    unfolding d by blast
qed

section \<open>Attribute lookup\<close>

lemma resolve_RowKeyD:
  "resolve p = RowKey d \<Longrightarrow> is_valid_path p \<and> p \<noteq> ''/'' \<and> tl p = d"
  by (auto simp: resolve_def split: if_splits)

lemma resolve_InvalidD: "resolve p = Invalid \<Longrightarrow> \<not> is_valid_path p"
  by (auto simp: resolve_def split: if_splits)

lemma is_valid_path_root: "is_valid_path ''/''"
  by (simp add: is_valid_path_def)

lemma is_valid_path_1: "is_valid_path ''/1''"
  by (simp add: is_valid_path_iff isdigit_def)

lemma resolve_1: "resolve ''/1'' = RowKey ''1''"
  by (simp add: resolve_key_iff isdigit_def)

lemma resolve_9: "resolve ''/9'' = RowKey ''9''"
  by (simp add: resolve_key_iff isdigit_def)

lemma my_getattr_invalid:
  "\<not> is_valid_path p \<Longrightarrow> my_getattr cfg e p sb = Returns (- ENOENT) sb"
  by (simp add: my_getattr_def)

lemma my_getattr_root:
  "my_getattr cfg e ''/'' sb =
     Returns 0 \<lparr>st_mode = S_IFDIR OR mode_0555, st_nlink = 2, st_size = 0,
                st_uid = getuid e, st_gid = getgid e\<rparr>"
  by (simp add: my_getattr_def is_valid_path_root zero_stat_def)

lemma my_getattr_absent:
  assumes "resolve p = RowKey d" "malloc_ok e 0" "malloc_ok e 1" "malloc_ok e 2"
    and "run_query e (read_qp (size_fp (my_data_field cfg)) (my_table cfg) (my_name_field cfg) d) = Some []"
  shows "my_getattr cfg e p sb = Returns (- ENOENT) zero_stat"
  using assms resolve_RowKeyD [OF assms(1)] by (simp add: my_getattr_def)

lemma my_getattr_present:
  assumes "resolve p = RowKey d" "malloc_ok e 0" "malloc_ok e 1" "malloc_ok e 2"
    and "run_query e (read_qp (size_fp (my_data_field cfg)) (my_table cfg) (my_name_field cfg) d) = Some (Some s # rows)"
  shows "my_getattr cfg e p sb =
     Returns 0 \<lparr>st_mode = S_IFREG OR mode_0555, st_nlink = 1, st_size = atoi s,
                st_uid = getuid e, st_gid = getgid e\<rparr>"
  using assms resolve_RowKeyD [OF assms(1)] by (simp add: my_getattr_def zero_stat_def)

lemma file_type_dir: "file_type (sb\<lparr>st_mode := S_IFDIR OR mode_0555\<rparr>) = S_IFDIR"
  by (simp add: file_type_def S_IFDIR_def S_IFMT_def mode_0555_def)

lemma file_type_reg: "file_type (sb\<lparr>st_mode := S_IFREG OR mode_0555\<rparr>) = S_IFREG"
  by (simp add: file_type_def S_IFREG_def S_IFMT_def mode_0555_def)

lemma permissions_dir: "permissions (sb\<lparr>st_mode := S_IFDIR OR mode_0555\<rparr>) = mode_0555"
  by (simp add: permissions_def S_IFDIR_def mode_0777_def mode_0555_def)

lemma permissions_reg: "permissions (sb\<lparr>st_mode := S_IFREG OR mode_0555\<rparr>) = mode_0555"
  by (simp add: permissions_def S_IFREG_def mode_0777_def mode_0555_def)

lemma scenario_size_query:
  "read_qp (size_fp (my_data_field scenario_cfg)) (my_table scenario_cfg) (my_name_field scenario_cfg) ''1''
     = ''SELECT LENGTH(body) FROM docs WHERE id = 1''"
  by (simp add: read_qp_def size_fp_def scenario_cfg_def)

lemma atoi_5: "atoi ''5'' = 5"
  by (simp add: atoi_def strtol_def isspace_def isdigit_def)

lemma digits_value_foldl:
  "list_all isdigit s \<Longrightarrow>
     digits_value acc s = foldl (\<lambda>n c. 10 * n + (of_char c - 48)) acc s"
  by (induction s arbitrary: acc) (simp_all add: mult.commute)

lemma isdigit_not_space: "isdigit c \<Longrightarrow> \<not> isspace c \<and> c \<noteq> CHR ''-'' \<and> c \<noteq> CHR ''+''"
  by (auto simp: isdigit_def isspace_def)

lemma strtol_decimal:
  assumes "is_uint s" "decimal s < 2 ^ 63"
  shows "strtol s = int (decimal s)"
proof -
  from assms(1) obtain c cs where s: "s = c # cs" and all: "list_all isdigit s"
    by (cases s) (auto simp: is_uint_iff)
  then have c: "\<not> isspace c" "c \<noteq> CHR ''-''" "c \<noteq> CHR ''+''"
    using isdigit_not_space [of c] by simp_all
  have dv: "digits_value 0 s = decimal s"
    using all by (simp add: digits_value_foldl decimal_def)
  have "int (decimal s) < 2 ^ 63"
    using assms(2) by (simp only: of_nat_less_numeral_power_cancel_iff)
  then have "int (decimal s) \<le> 2 ^ 63 - 1"
    by (simp only: zle_diff1_eq)
  then have "min (2 ^ 63 - 1) (int (decimal s)) = int (decimal s)"
    by (rule min_absorb2)
  with s c dv show ?thesis
    by (simp add: strtol_def del: digits_value.simps)
qed

lemma atoi_decimal:
  assumes "is_uint s" "decimal s < 2 ^ 31"
  shows "atoi s = int (decimal s)"
proof -
  have "(2::nat) ^ 31 \<le> 2 ^ 63"
    by (rule power_increasing) simp_all
  with assms(2) have "decimal s < 2 ^ 63"
    by (rule less_le_trans)
  with assms(1) have st: "strtol s = int (decimal s)"
    by (rule strtol_decimal)
  have "int (decimal s) < 2 ^ 31"
    using assms(2) by (simp only: of_nat_less_numeral_power_cancel_iff)
  then have "signed_take_bit (LENGTH(32) - 1) (int (decimal s)) = int (decimal s)"
    by (simp add: signed_take_bit_int_eq_self)
  then show ?thesis
    by (simp only: atoi_def st sint_sbintrunc')
qed

lemma decimal_5: "decimal ''5'' = 5"
  by (simp add: decimal_def)

text \<open>
  Claim C5, as amended. \<open>my_getattr\<close> returns \<open>- ENOENT\<close> for an invalid path. For the root it
  returns 0 with the type directory, link count 2, permission read and execute for all
  (0555) and the real user and group of the process. For a row key whose length query runs
  (the three allocations succeed) and has no row it returns \<open>- ENOENT\<close>. When the query has
  a row with a non-NULL value \<open>s\<close> it returns 0 with the type regular file, link count 1,
  length \<open>atoi s\<close> (the number that \<open>s\<close> denotes when \<open>s\<close> is a digit string below
  \<open>2 ^ 31\<close>), permission read and execute for all (0555, the same bits as the directory, not
  0444) and the real user and group of the process.
\<close>

theorem my_getattr_spec:
  "(resolve p = Invalid \<longrightarrow> my_getattr cfg e p sb = Returns (- ENOENT) sb)
   \<and> (resolve p = RootDirectory \<longrightarrow>
        my_getattr cfg e p sb =
          Returns 0 \<lparr>st_mode = S_IFDIR OR mode_0555, st_nlink = 2, st_size = 0,
                     st_uid = getuid e, st_gid = getgid e\<rparr>
        \<and> file_type (payload (my_getattr cfg e p sb)) = S_IFDIR
        \<and> permissions (payload (my_getattr cfg e p sb)) = mode_0555)
   \<and> (resolve p = RowKey d \<and> malloc_ok e 0 \<and> malloc_ok e 1 \<and> malloc_ok e 2
        \<and> run_query e (read_qp (size_fp (my_data_field cfg)) (my_table cfg) (my_name_field cfg) d)
            = Some []
        \<longrightarrow> my_getattr cfg e p sb = Returns (- ENOENT) zero_stat)
   \<and> (resolve p = RowKey d \<and> malloc_ok e 0 \<and> malloc_ok e 1 \<and> malloc_ok e 2
        \<and> run_query e (read_qp (size_fp (my_data_field cfg)) (my_table cfg) (my_name_field cfg) d)
            = Some (Some s # rows)
        \<longrightarrow> my_getattr cfg e p sb =
              Returns 0 \<lparr>st_mode = S_IFREG OR mode_0555, st_nlink = 1, st_size = atoi s,
                         st_uid = getuid e, st_gid = getgid e\<rparr>
            \<and> file_type (payload (my_getattr cfg e p sb)) = S_IFREG
            \<and> permissions (payload (my_getattr cfg e p sb)) = mode_0555
            \<and> (is_uint s \<and> decimal s < 2 ^ 31 \<longrightarrow>
                 st_size (payload (my_getattr cfg e p sb)) = int (decimal s)))"
proof (intro conjI impI)
  assume "resolve p = Invalid"
  then show "my_getattr cfg e p sb = Returns (- ENOENT) sb"
    by (simp add: my_getattr_invalid resolve_InvalidD)
next
  assume "resolve p = RootDirectory"
  then have p: "p = ''/''"
    by (simp add: resolve_root_iff)
  show "my_getattr cfg e p sb =
          Returns 0 \<lparr>st_mode = S_IFDIR OR mode_0555, st_nlink = 2, st_size = 0,
                     st_uid = getuid e, st_gid = getgid e\<rparr>"
    unfolding p by (rule my_getattr_root)
  then show "file_type (payload (my_getattr cfg e p sb)) = S_IFDIR"
    using file_type_dir [of zero_stat] by (simp add: file_type_def)
  from \<open>my_getattr cfg e p sb = _\<close>
  show "permissions (payload (my_getattr cfg e p sb)) = mode_0555"
    using permissions_dir [of zero_stat] by (simp add: permissions_def)
next
  assume "resolve p = RowKey d \<and> malloc_ok e 0 \<and> malloc_ok e 1 \<and> malloc_ok e 2
        \<and> run_query e (read_qp (size_fp (my_data_field cfg)) (my_table cfg) (my_name_field cfg) d)
            = Some []"
  then show "my_getattr cfg e p sb = Returns (- ENOENT) zero_stat"
    by (simp add: my_getattr_absent)
next
  assume h: "resolve p = RowKey d \<and> malloc_ok e 0 \<and> malloc_ok e 1 \<and> malloc_ok e 2
        \<and> run_query e (read_qp (size_fp (my_data_field cfg)) (my_table cfg) (my_name_field cfg) d)
            = Some (Some s # rows)"
  then show r: "my_getattr cfg e p sb =
              Returns 0 \<lparr>st_mode = S_IFREG OR mode_0555, st_nlink = 1, st_size = atoi s,
                         st_uid = getuid e, st_gid = getgid e\<rparr>"
    by (simp add: my_getattr_present)
  show "file_type (payload (my_getattr cfg e p sb)) = S_IFREG"
    using file_type_reg [of zero_stat] by (simp add: r file_type_def)
  show "permissions (payload (my_getattr cfg e p sb)) = mode_0555"
    using permissions_reg [of zero_stat] by (simp add: r permissions_def)
  assume "is_uint s \<and> decimal s < 2 ^ 31"
  then show "st_size (payload (my_getattr cfg e p sb)) = int (decimal s)"
    by (simp add: r atoi_decimal)
qed

lemma scenario_env_sel:
  "malloc_ok scenario_env n" "run_query scenario_env = scenario_db"
  "getuid scenario_env = 1000" "getgid scenario_env = 1000"
  by (simp_all add: scenario_env_def)

lemma scenario_size_query_9:
  "read_qp (size_fp (my_data_field scenario_cfg)) (my_table scenario_cfg) (my_name_field scenario_cfg) ''9''
     = ''SELECT LENGTH(body) FROM docs WHERE id = 9''"
  by (simp add: read_qp_def size_fp_def scenario_cfg_def)

theorem my_getattr_spec_witness:
  "my_getattr scenario_cfg scenario_env ''/x'' zero_stat = Returns (- 2) zero_stat
   \<and> my_getattr scenario_cfg scenario_env ''/'' zero_stat =
       Returns 0 \<lparr>st_mode = 0x416D, st_nlink = 2, st_size = 0, st_uid = 1000, st_gid = 1000\<rparr>
   \<and> my_getattr scenario_cfg scenario_env ''/9'' zero_stat = Returns (- 2) zero_stat
   \<and> my_getattr scenario_cfg scenario_env ''/1'' zero_stat =
       Returns 0 \<lparr>st_mode = 0x816D, st_nlink = 1, st_size = 5, st_uid = 1000, st_gid = 1000\<rparr>
   \<and> st_size (payload (my_getattr scenario_cfg scenario_env ''/1'' zero_stat)) = int (decimal ''5'')"
proof -
  have inv: "resolve ''/x'' = Invalid"
    by (simp add: resolve_invalid_iff isdigit_def)
  have root: "resolve ''/'' = RootDirectory"
    by (simp add: resolve_root_iff)
  have q9: "resolve ''/9'' = RowKey ''9'' \<and> malloc_ok scenario_env 0 \<and> malloc_ok scenario_env 1
      \<and> malloc_ok scenario_env 2
      \<and> run_query scenario_env (read_qp (size_fp (my_data_field scenario_cfg))
           (my_table scenario_cfg) (my_name_field scenario_cfg) ''9'') = Some []"
    by (simp add: resolve_9 scenario_env_sel scenario_size_query_9 scenario_db_def)
  have q1: "resolve ''/1'' = RowKey ''1'' \<and> malloc_ok scenario_env 0 \<and> malloc_ok scenario_env 1
      \<and> malloc_ok scenario_env 2
      \<and> run_query scenario_env (read_qp (size_fp (my_data_field scenario_cfg))
           (my_table scenario_cfg) (my_name_field scenario_cfg) ''1'') = Some (Some ''5'' # [])"
    by (simp add: resolve_1 scenario_env_sel scenario_size_query scenario_db_def)
  have n: "is_uint ''5'' \<and> decimal ''5'' < 2 ^ 31"
    by (simp add: is_uint_iff isdigit_def decimal_def)
  have "my_getattr scenario_cfg scenario_env ''/x'' zero_stat = Returns (- 2) zero_stat"
    using my_getattr_spec [where p = "''/x''" and cfg = scenario_cfg and e = scenario_env
        and sb = zero_stat] inv
    by (simp add: ENOENT_def)
  moreover have "my_getattr scenario_cfg scenario_env ''/'' zero_stat =
       Returns 0 \<lparr>st_mode = 0x416D, st_nlink = 2, st_size = 0, st_uid = 1000, st_gid = 1000\<rparr>"
    using my_getattr_spec [where p = "''/''" and cfg = scenario_cfg and e = scenario_env
        and sb = zero_stat] root
    by (simp add: scenario_env_sel S_IFDIR_def mode_0555_def)
  moreover have "my_getattr scenario_cfg scenario_env ''/9'' zero_stat = Returns (- 2) zero_stat"
    using my_getattr_spec [where p = "''/9''" and d = "''9''" and cfg = scenario_cfg
        and e = scenario_env and sb = zero_stat] q9
    by (simp add: ENOENT_def)
  moreover have "my_getattr scenario_cfg scenario_env ''/1'' zero_stat =
       Returns 0 \<lparr>st_mode = 0x816D, st_nlink = 1, st_size = 5, st_uid = 1000, st_gid = 1000\<rparr>
     \<and> st_size (payload (my_getattr scenario_cfg scenario_env ''/1'' zero_stat)) = int (decimal ''5'')"
    using my_getattr_spec [where p = "''/1''" and d = "''1''" and cfg = scenario_cfg
        and e = scenario_env and sb = zero_stat and s = "''5''" and rows = "[]"] q1 n
    by (simp add: scenario_env_sel S_IFREG_def mode_0555_def atoi_5 decimal_5)
  ultimately show ?thesis
    by blast
qed

text \<open>
  The file of row 1 of the scenario: its permission bits are 0555, which differ from 0444
  and contain all three execute bits.
\<close>

theorem my_getattr_file_mode_counterexample:
  "code (my_getattr scenario_cfg scenario_env ''/1'' zero_stat) = 0
   \<and> file_type (payload (my_getattr scenario_cfg scenario_env ''/1'' zero_stat)) = S_IFREG
   \<and> permissions (payload (my_getattr scenario_cfg scenario_env ''/1'' zero_stat)) = mode_0555
   \<and> permissions (payload (my_getattr scenario_cfg scenario_env ''/1'' zero_stat)) \<noteq> mode_0444
   \<and> permissions (payload (my_getattr scenario_cfg scenario_env ''/1'' zero_stat)) AND mode_0111
       = mode_0111"
proof -
  have "my_getattr scenario_cfg scenario_env ''/1'' zero_stat =
       Returns 0 \<lparr>st_mode = S_IFREG OR mode_0555, st_nlink = 1, st_size = atoi ''5'',
                  st_uid = getuid scenario_env, st_gid = getgid scenario_env\<rparr>"
    by (rule my_getattr_present [where d = "''1''" and rows = "[]"])
      (simp_all add: resolve_1 scenario_env_sel scenario_size_query scenario_db_def)
  then show ?thesis
    by (simp add: file_type_def permissions_def S_IFREG_def S_IFMT_def mode_0777_def
        mode_0555_def mode_0444_def mode_0111_def)
qed

section \<open>Attribute lookup on a length that is NULL\<close>

lemma null_length_query:
  "run_query (scenario_env\<lparr>run_query := null_length_db\<rparr>)
     (read_qp (size_fp (my_data_field scenario_cfg)) (my_table scenario_cfg)
        (my_name_field scenario_cfg) ''1'') = Some [None]"
  by (simp add: scenario_size_query null_length_db_def)

text \<open>
  Once the length query has run and its first row carries NULL, \<open>my_getattr\<close> hands the
  NULL pointer to \<^verbatim>\<open>atoi\<close>, whatever the other rows and the configuration are.
\<close>

lemma my_getattr_null_length:
  assumes "resolve p = RowKey d" "malloc_ok e 0" "malloc_ok e 1" "malloc_ok e 2"
    and "run_query e (read_qp (size_fp (my_data_field cfg)) (my_table cfg) (my_name_field cfg) d)
           = Some (None # rows)"
  shows "my_getattr cfg e p sb = Fault"
  using assms resolve_RowKeyD [OF assms(1)] by (simp add: my_getattr_def)

text \<open>
  Claim C8 at a failing input. The only value of \<^verbatim>\<open>LENGTH(...)\<close> that is not a decimal
  number is NULL, which the server returns when the data column of the row is NULL. For
  \<open>my_getattr\<close> on \<open>''/1''\<close> with such a row the allocations succeed, the query returns
  the row, and \<^verbatim>\<open>atoi(row[0])\<close> dereferences the NULL pointer: the call does not return
  \<open>- ENOENT\<close>, which is what it returns for the absent row 9.
\<close>

theorem my_getattr_null_length_faults:
  "is_valid_path ''/1''
   \<and> run_query (scenario_env\<lparr>run_query := null_length_db\<rparr>)
       (read_qp (size_fp (my_data_field scenario_cfg)) (my_table scenario_cfg)
          (my_name_field scenario_cfg) ''1'') = Some [None]
   \<and> my_getattr scenario_cfg (scenario_env\<lparr>run_query := null_length_db\<rparr>) ''/1'' zero_stat = Fault
   \<and> my_getattr scenario_cfg (scenario_env\<lparr>run_query := null_length_db\<rparr>) ''/1'' zero_stat
       \<noteq> Returns (- ENOENT) zero_stat
   \<and> my_getattr scenario_cfg (scenario_env\<lparr>run_query := null_length_db\<rparr>) ''/9'' zero_stat
       = Returns (- ENOENT) zero_stat"
proof -
  have a: "my_getattr scenario_cfg (scenario_env\<lparr>run_query := null_length_db\<rparr>) ''/1'' zero_stat
      = Fault"
    by (rule my_getattr_null_length [where d = "''1''" and rows = "[]"])
      (simp_all add: resolve_1 scenario_env_sel null_length_query [simplified])
  have b: "my_getattr scenario_cfg (scenario_env\<lparr>run_query := null_length_db\<rparr>) ''/9'' zero_stat
      = Returns (- ENOENT) zero_stat"
    by (rule my_getattr_absent [where d = "''9''"])
      (simp_all add: resolve_9 scenario_env_sel scenario_size_query_9 null_length_db_def
        scenario_db_def)
  show ?thesis
    using null_length_query by (simp add: a b is_valid_path_1)
qed

section \<open>The sign of the error values\<close>

text \<open>
  Claim C9 at a failing input: \<open>my_getattr\<close> on the row key \<open>''/1''\<close> when the second
  allocation (the buffer for \<^verbatim>\<open>LENGTH(...)\<close>) fails returns the positive value \<open>ENOENT\<close>,
  which is 2, and not \<open>- ENOENT\<close>.
\<close>

theorem my_getattr_positive_errno:
  "my_getattr scenario_cfg (scenario_env\<lparr>malloc_ok := fails_at 1\<rparr>) ''/1'' zero_stat
     = Returns ENOENT zero_stat
   \<and> code (my_getattr scenario_cfg (scenario_env\<lparr>malloc_ok := fails_at 1\<rparr>) ''/1'' zero_stat) = 2
   \<and> 0 < code (my_getattr scenario_cfg (scenario_env\<lparr>malloc_ok := fails_at 1\<rparr>) ''/1'' zero_stat)"
  by (simp add: my_getattr_def is_valid_path_1 fails_at_def ENOENT_def)

section \<open>Opening\<close>

lemma write_test_bit: "(flags AND (if O_RDONLY = 0 then 1 else 0) \<noteq> 0) = bit flags 0" for flags :: "32 word"
  by (simp add: O_RDONLY_def and_one_eq mod_2_eq_odd bit_0)

lemma my_open_invalid: "\<not> is_valid_path p \<Longrightarrow> my_open cfg e p flags = - ENOENT"
  by (simp add: my_open_def)

text \<open>A request whose access mode is \<^verbatim>\<open>O_WRONLY\<close> is refused on every valid path.\<close>

lemma my_open_wronly:
  assumes "is_valid_path p" "flags AND O_ACCMODE = O_WRONLY"
  shows "my_open cfg e p flags = - EROFS"
proof -
  have "bit (flags AND O_ACCMODE) 0"
    using assms(2) by (simp add: O_WRONLY_def)
  then have "bit flags 0"
    by (simp add: bit_0 even_and_iff)
  with assms(1) show ?thesis
    unfolding my_open_def write_test_bit by simp
qed

text \<open>A request whose access mode is \<^verbatim>\<open>O_RDONLY\<close> is never answered with \<open>- EROFS\<close>.\<close>

lemma my_open_rdonly:
  assumes "flags AND O_ACCMODE = O_RDONLY"
  shows "my_open cfg e p flags \<noteq> - EROFS"
proof -
  have "\<not> bit (flags AND O_ACCMODE) 0"
    using assms by (simp add: O_RDONLY_def)
  then have "\<not> bit flags 0"
    by (simp add: O_ACCMODE_def bit_0 even_and_iff)
  then show ?thesis
    unfolding my_open_def write_test_bit
    by (simp add: ENOENT_def EROFS_def ENOMEM_def EAGAIN_def Let_def
        split: option.split list.split)
qed

text \<open>A request whose access mode is \<^verbatim>\<open>O_RDWR\<close> passes the test for write access.\<close>

lemma my_open_rdwr:
  assumes "flags AND O_ACCMODE = O_RDWR"
  shows "my_open cfg e p flags \<noteq> - EROFS"
proof -
  have "\<not> bit (flags AND O_ACCMODE) 0"
    using assms by (simp add: O_RDWR_def)
  then have "\<not> bit flags 0"
    by (simp add: O_ACCMODE_def bit_0 even_and_iff)
  then show ?thesis
    unfolding my_open_def write_test_bit
    by (simp add: ENOENT_def EROFS_def ENOMEM_def EAGAIN_def Let_def
        split: option.split list.split)
qed

lemma scenario_exists_query:
  "read_qp ''1'' (my_table scenario_cfg) (my_name_field scenario_cfg) ''1''
     = ''SELECT 1 FROM docs WHERE id = 1''"
  by (simp add: read_qp_def scenario_cfg_def)

text \<open>
  Claim C7 at a failing input: opening the root directory, or the file of the existing
  row 1, with the access mode \<^verbatim>\<open>O_RDWR\<close> returns 0 and not \<open>- EROFS\<close>.
\<close>

theorem my_open_rdwr_succeeds:
  "is_valid_path ''/'' \<and> is_valid_path ''/1''
   \<and> my_open scenario_cfg scenario_env ''/'' O_RDWR = 0
   \<and> my_open scenario_cfg scenario_env ''/1'' O_RDWR = 0
   \<and> my_open scenario_cfg scenario_env ''/'' O_WRONLY = - EROFS
   \<and> - EROFS \<noteq> (0::int)"
proof -
  have 1: "\<not> bit O_RDWR 0"
    by (simp add: O_RDWR_def)
  have 2: "bit O_WRONLY 0"
    by (simp add: O_WRONLY_def)
  have "my_open scenario_cfg scenario_env ''/'' O_RDWR = 0"
    unfolding my_open_def write_test_bit using 1 by (simp add: is_valid_path_root)
  moreover have "my_open scenario_cfg scenario_env ''/1'' O_RDWR = 0"
    unfolding my_open_def write_test_bit using 1
    by (simp add: is_valid_path_1 scenario_env_sel scenario_exists_query scenario_db_def)
  moreover have "my_open scenario_cfg scenario_env ''/'' O_WRONLY = - EROFS"
    unfolding my_open_def write_test_bit using 2 by (simp add: is_valid_path_root)
  ultimately show ?thesis
    by (simp add: is_valid_path_root is_valid_path_1 EROFS_def)
qed

section \<open>Reading\<close>

lemma int_of_size_t_errno:
  "int_of_size_t (size_t_of_int (- ENOENT)) = - ENOENT"
  "int_of_size_t (size_t_of_int (- ENOMEM)) = - ENOMEM"
  by (simp_all add: int_of_size_t_def size_t_of_int_def ENOENT_def ENOMEM_def)

lemma int_of_size_t_small:
  assumes "unat w < 2 ^ 31"
  shows "int_of_size_t w = int (unat w)"
proof -
  have "int (unat w) < 2 ^ 31"
    using assms by (simp only: of_nat_less_numeral_power_cancel_iff)
  then have "uint w < 2 ^ 31"
    by (simp only: uint_nat)
  moreover have "- (2 ^ 31) \<le> uint w"
    by (rule order_trans [of _ 0]) simp_all
  ultimately have stb: "signed_take_bit (LENGTH(32) - 1) (uint w) = uint w"
    by (simp add: signed_take_bit_int_eq_self)
  have "int_of_size_t w = sint (word_of_int (uint w) :: 32 word)"
    by (simp only: int_of_size_t_def ucast_eq)
  also have "\<dots> = signed_take_bit (LENGTH(32) - 1) (uint w)"
    by (simp only: sint_sbintrunc')
  also have "\<dots> = uint w"
    by (rule stb)
  also have "\<dots> = int (unat w)"
    by (rule uint_nat)
  finally show ?thesis .
qed

lemma my_read_invalid: "\<not> is_valid_path p \<Longrightarrow> my_read cfg e p sz offset = Returns (- ENOENT) []"
  by (simp add: my_read_def)

lemma my_read_root: "my_read cfg e ''/'' sz offset = Returns (- EISDIR) []"
  by (simp add: my_read_def is_valid_path_root)

lemma my_read_absent:
  assumes "resolve p = RowKey d" "malloc_ok e 0" "malloc_ok e 1"
    and "run_query e (read_qp (my_data_field cfg) (my_table cfg) (my_name_field cfg) d) = Some []"
  shows "my_read cfg e p sz offset = Returns (- ENOENT) []"
  using assms resolve_RowKeyD [OF assms(1)] by (simp add: my_read_def int_of_size_t_errno)

text \<open>
  The copy of \<^verbatim>\<open>my_read\<close> once a row is fetched: the part of \<open>my_read\<close> after
  \<^verbatim>\<open>row = mysql_fetch_row(res)\<close> has given a row with the value \<open>bytes\<close>.
\<close>

lemma my_read_present:
  assumes "resolve p = RowKey d" "malloc_ok e 0" "malloc_ok e 1"
    and "run_query e (read_qp (my_data_field cfg) (my_table cfg) (my_name_field cfg) d)
           = Some (Some bytes # rows)"
  shows "my_read cfg e p sz offset =
     (if offset \<le> of_nat (length bytes) then
        (if unat offset
             + unat (if offset + sz > of_nat (length bytes) then of_nat (length bytes) - offset else sz)
             \<le> length bytes
         then Returns
           (int_of_size_t (if offset + sz > of_nat (length bytes) then of_nat (length bytes) - offset else sz))
           (take (unat (if offset + sz > of_nat (length bytes) then of_nat (length bytes) - offset else sz))
              (drop (unat offset) bytes))
         else Fault)
      else Returns (int_of_size_t 0) [])"
  using assms resolve_RowKeyD [OF assms(1)] by (simp add: my_read_def Let_def)

text \<open>
  The clamp of the window. \<^verbatim>\<open>buf\<close> is a buffer of \<open>sz\<close> bytes that the caller owns while the
  fetched value occupies \<open>length bytes\<close> bytes, so the two sizes together stay below
  \<open>2 ^ 64\<close>; \<open>sz\<close> also fits the \<^verbatim>\<open>int\<close> that is returned.
\<close>

lemma my_read_window:
  assumes row: "resolve p = RowKey d" "malloc_ok e 0" "malloc_ok e 1"
      "run_query e (read_qp (my_data_field cfg) (my_table cfg) (my_name_field cfg) d)
         = Some (Some bytes # rows)"
    and buffer: "unat sz + length bytes < 2 ^ 64"
    and small: "unat sz < 2 ^ 31"
  shows "my_read cfg e p sz offset =
           Returns (int (min (unat sz) (length bytes - unat offset)))
                   (take (min (unat sz) (length bytes - unat offset)) (drop (unat offset) bytes))"
proof -
  let ?L = "length bytes"
  let ?len = "of_nat ?L :: 64 word"
  have len: "?L < 2 ^ 64"
    using buffer by linarith
  have ul: "unat ?len = ?L"
    using len by (simp add: unat_of_nat)
  show ?thesis
  proof (cases "offset \<le> ?len")
    case False
    then have "?L < unat offset"
      by (simp add: word_le_nat_alt ul)
    with False show ?thesis
      by (simp add: my_read_present [OF row] int_of_size_t_def)
  next
    case True
    then have le: "unat offset \<le> ?L"
      by (simp add: word_le_nat_alt ul)
    have "unat offset + unat sz < 2 ^ 64"
      using le buffer by linarith
    then have sum: "unat (offset + sz) = unat offset + unat sz"
      by (simp add: unat_add_lem [symmetric])
    show ?thesis
    proof (cases "offset + sz > ?len")
      case clamp: True
      then have gt: "?L < unat offset + unat sz"
        by (simp add: word_less_nat_alt ul sum)
      have u: "unat (?len - offset) = ?L - unat offset"
        using True by (simp add: unat_sub ul)
      have "?L - unat offset < 2 ^ 31"
        using gt small by linarith
      then have "int_of_size_t (?len - offset) = int (?L - unat offset)"
        using u by (simp add: int_of_size_t_small)
      moreover have "min (unat sz) (?L - unat offset) = ?L - unat offset"
        using gt by simp
      ultimately show ?thesis
        using True clamp le u by (simp add: my_read_present [OF row])
    next
      case keep: False
      then have fits: "unat offset + unat sz \<le> ?L"
        by (simp add: word_less_nat_alt ul sum)
      then have "min (unat sz) (?L - unat offset) = unat sz"
        by simp
      then show ?thesis
        using True keep fits small by (simp add: my_read_present [OF row] int_of_size_t_small)
    qed
  qed
qed

lemma scenario_content_query:
  "read_qp (my_data_field scenario_cfg) (my_table scenario_cfg) (my_name_field scenario_cfg) ''1''
     = ''SELECT body FROM docs WHERE id = 1''"
  by (simp add: read_qp_def scenario_cfg_def)

lemma scenario_content_query_9:
  "read_qp (my_data_field scenario_cfg) (my_table scenario_cfg) (my_name_field scenario_cfg) ''9''
     = ''SELECT body FROM docs WHERE id = 9''"
  by (simp add: read_qp_def scenario_cfg_def)

lemma scenario_read_row:
  "run_query scenario_env
     (read_qp (my_data_field scenario_cfg) (my_table scenario_cfg) (my_name_field scenario_cfg) ''1'')
   = Some (Some ''hello'' # [])"
  by (simp add: scenario_env_sel scenario_content_query scenario_db_def)

text \<open>The reads of the scenario: a short read and a read behind the end.\<close>

lemma my_read_scenario:
  "my_read scenario_cfg scenario_env ''/1'' 10 0 = Returns 5 ''hello''"
  "my_read scenario_cfg scenario_env ''/1'' 5 10 = Returns 0 []"
  "my_read scenario_cfg scenario_env ''/1'' 2 1 = Returns 2 ''el''"
  using
    my_read_window [OF resolve_1 scenario_env_sel(1) scenario_env_sel(1) scenario_read_row,
      where sz = 10 and offset = 0]
    my_read_window [OF resolve_1 scenario_env_sel(1) scenario_env_sel(1) scenario_read_row,
      where sz = 5 and offset = 10]
    my_read_window [OF resolve_1 scenario_env_sel(1) scenario_env_sel(1) scenario_read_row,
      where sz = 2 and offset = 1]
  by simp_all

lemma int_min_diff:
  fixes a b c :: nat
  assumes "c \<le> b"
  shows "int (min a (b - c)) = max 0 (min (int a) (int b - int c))"
  using assms by (auto simp: min_def max_def)

text \<open>
  Claim C4. Let the content query of \<open>my_read\<close> for a row key deliver a row with the content
  \<open>bytes\<close> of length \<open>L\<close>, and let the request be one that a caller can make: the buffer of
  \<open>sz\<close> bytes and the content fit the address space together, and \<open>sz\<close> fits the \<^verbatim>\<open>int\<close>
  result. Then the call returns, at every offset. When \<open>offset \<le> L\<close> the window has the
  length \<open>max 0 (min sz (L - offset))\<close>; when \<open>offset > L\<close> it is empty. The returned bytes
  are exactly the bytes of the content from position \<open>offset\<close> up to \<open>offset\<close> plus the returned
  length; they are never more than \<open>L - offset\<close> and never reach beyond position \<open>L\<close>.
\<close>

theorem my_read_clamp:
  assumes "resolve p = RowKey d" and "malloc_ok e 0" and "malloc_ok e 1"
    and "run_query e (read_qp (my_data_field cfg) (my_table cfg) (my_name_field cfg) d)
           = Some (Some bytes # rows)"
    and "unat sz + length bytes < 2 ^ 64"
    and "unat sz < 2 ^ 31"
  shows "my_read cfg e p sz offset \<noteq> Fault
    \<and> (unat offset \<le> length bytes \<longrightarrow>
         code (my_read cfg e p sz offset)
           = max 0 (min (int (unat sz)) (int (length bytes) - int (unat offset)))
         \<and> unat offset + nat (code (my_read cfg e p sz offset)) \<le> length bytes)
    \<and> (length bytes < unat offset \<longrightarrow> my_read cfg e p sz offset = Returns 0 [])
    \<and> length (payload (my_read cfg e p sz offset)) = nat (code (my_read cfg e p sz offset))
    \<and> payload (my_read cfg e p sz offset)
         = take (nat (code (my_read cfg e p sz offset))) (drop (unat offset) bytes)
    \<and> nat (code (my_read cfg e p sz offset)) \<le> length bytes - unat offset"
proof -
  define n where "n = min (unat sz) (length bytes - unat offset)"
  have r: "my_read cfg e p sz offset = Returns (int n) (take n (drop (unat offset) bytes))"
    unfolding n_def using assms by (rule my_read_window)
  have c: "nat (code (my_read cfg e p sz offset)) = n"
    and pl: "payload (my_read cfg e p sz offset) = take n (drop (unat offset) bytes)"
    by (simp_all add: r)
  have le: "n \<le> length bytes - unat offset"
    by (simp add: n_def)
  have 1: "my_read cfg e p sz offset \<noteq> Fault"
    by (simp add: r)
  have 2: "code (my_read cfg e p sz offset)
           = max 0 (min (int (unat sz)) (int (length bytes) - int (unat offset)))
         \<and> unat offset + nat (code (my_read cfg e p sz offset)) \<le> length bytes"
    if "unat offset \<le> length bytes"
  proof
    have "code (my_read cfg e p sz offset) = int n"
      by (simp add: r)
    also have "\<dots> = max 0 (min (int (unat sz)) (int (length bytes) - int (unat offset)))"
      unfolding n_def using that by (rule int_min_diff)
    finally show "code (my_read cfg e p sz offset)
           = max 0 (min (int (unat sz)) (int (length bytes) - int (unat offset)))" .
    show "unat offset + nat (code (my_read cfg e p sz offset)) \<le> length bytes"
      unfolding c using le that by linarith
  qed
  have 3: "my_read cfg e p sz offset = Returns 0 []" if "length bytes < unat offset"
  proof -
    from that have "n = 0"
      by (simp add: n_def)
    then show ?thesis
      by (simp add: r)
  qed
  have 4: "length (payload (my_read cfg e p sz offset)) = nat (code (my_read cfg e p sz offset))"
    unfolding c pl using le by simp
  have 5: "payload (my_read cfg e p sz offset)
         = take (nat (code (my_read cfg e p sz offset))) (drop (unat offset) bytes)"
    unfolding c by (rule pl)
  have 6: "nat (code (my_read cfg e p sz offset)) \<le> length bytes - unat offset"
    unfolding c by (rule le)
  from 1 2 3 4 5 6 show ?thesis
    by blast
qed

theorem my_read_clamp_witness:
  "code (my_read scenario_cfg scenario_env ''/1'' 10 0) = 5
   \<and> payload (my_read scenario_cfg scenario_env ''/1'' 10 0) = ''hello''
   \<and> code (my_read scenario_cfg scenario_env ''/1'' 2 1) = 2
   \<and> payload (my_read scenario_cfg scenario_env ''/1'' 2 1) = ''el''
   \<and> my_read scenario_cfg scenario_env ''/1'' 5 10 = Returns 0 []"
proof -
  have b: "unat (10 :: 64 word) + length ''hello'' < 2 ^ 64" "unat (10 :: 64 word) < 2 ^ 31"
    "unat (2 :: 64 word) + length ''hello'' < 2 ^ 64" "unat (2 :: 64 word) < 2 ^ 31"
    "unat (5 :: 64 word) + length ''hello'' < 2 ^ 64" "unat (5 :: 64 word) < 2 ^ 31"
    by simp_all
  have o: "unat (0 :: 64 word) \<le> length ''hello''" "unat (1 :: 64 word) \<le> length ''hello''"
    "length ''hello'' < unat (10 :: 64 word)"
    by simp_all
  show ?thesis
    using
      my_read_clamp [OF resolve_1 scenario_env_sel(1) scenario_env_sel(1) scenario_read_row
        b(1) b(2), where offset = 0]
      my_read_clamp [OF resolve_1 scenario_env_sel(1) scenario_env_sel(1) scenario_read_row
        b(3) b(4), where offset = 1]
      my_read_clamp [OF resolve_1 scenario_env_sel(1) scenario_env_sel(1) scenario_read_row
        b(5) b(6), where offset = 10]
      o
    by simp
qed

text \<open>
  The bound on the two sizes is used: it is what keeps \<^verbatim>\<open>offset + size\<close> from wrapping
  around \<open>2 ^ 64\<close> once \<^verbatim>\<open>offset <= len\<close> holds. For a size of \<open>2 ^ 64 - 1\<close>, for which no
  buffer exists, the sum at offset 1 is 0 and the size would stay as it is.
\<close>

lemma my_read_without_buffer:
  "(1 :: 64 word) + 0xFFFFFFFFFFFFFFFF = 0
   \<and> my_read scenario_cfg scenario_env ''/1'' 0xFFFFFFFFFFFFFFFF 1 = Fault"
  by (simp add: my_read_present [OF resolve_1 scenario_env_sel(1) scenario_env_sel(1) scenario_read_row])

text \<open>
  Claim C6. \<open>my_read\<close> returns \<open>- ENOENT\<close> for an invalid path, \<open>- EISDIR\<close> for the root
  directory, and \<open>- ENOENT\<close> for a row key whose content query runs and has no row.
\<close>

theorem my_read_errors:
  "(resolve p = Invalid \<longrightarrow> my_read cfg e p sz offset = Returns (- ENOENT) [])
   \<and> (resolve p = RootDirectory \<longrightarrow> my_read cfg e p sz offset = Returns (- EISDIR) [])
   \<and> (resolve p = RowKey d \<and> malloc_ok e 0 \<and> malloc_ok e 1
        \<and> run_query e (read_qp (my_data_field cfg) (my_table cfg) (my_name_field cfg) d) = Some []
        \<longrightarrow> my_read cfg e p sz offset = Returns (- ENOENT) [])"
proof (intro conjI impI)
  assume "resolve p = Invalid"
  then show "my_read cfg e p sz offset = Returns (- ENOENT) []"
    by (simp add: my_read_invalid resolve_InvalidD)
next
  assume "resolve p = RootDirectory"
  then have "p = ''/''"
    by (simp add: resolve_root_iff)
  then show "my_read cfg e p sz offset = Returns (- EISDIR) []"
    by (simp add: my_read_root)
next
  assume "resolve p = RowKey d \<and> malloc_ok e 0 \<and> malloc_ok e 1
        \<and> run_query e (read_qp (my_data_field cfg) (my_table cfg) (my_name_field cfg) d) = Some []"
  then show "my_read cfg e p sz offset = Returns (- ENOENT) []"
    by (simp add: my_read_absent)
qed

theorem my_read_errors_witness:
  "my_read scenario_cfg scenario_env [] 1 0 = Returns (- 2) []
   \<and> my_read scenario_cfg scenario_env ''/'' 1 0 = Returns (- 21) []
   \<and> my_read scenario_cfg scenario_env ''/9'' 1 0 = Returns (- 2) []"
proof -
  have inv: "resolve [] = Invalid"
    by (simp add: resolve_invalid_iff)
  have root: "resolve ''/'' = RootDirectory"
    by (simp add: resolve_root_iff)
  have q9: "resolve ''/9'' = RowKey ''9'' \<and> malloc_ok scenario_env 0 \<and> malloc_ok scenario_env 1
      \<and> run_query scenario_env (read_qp (my_data_field scenario_cfg) (my_table scenario_cfg)
           (my_name_field scenario_cfg) ''9'') = Some []"
    by (simp add: resolve_9 scenario_env_sel scenario_content_query_9 scenario_db_def)
  have "my_read scenario_cfg scenario_env [] 1 0 = Returns (- 2) []"
    using my_read_errors [where p = "[]" and cfg = scenario_cfg and e = scenario_env
        and sz = 1 and offset = 0] inv
    by (simp add: ENOENT_def)
  moreover have "my_read scenario_cfg scenario_env ''/'' 1 0 = Returns (- 21) []"
    using my_read_errors [where p = "''/''" and cfg = scenario_cfg and e = scenario_env
        and sz = 1 and offset = 0] root
    by (simp add: EISDIR_def)
  moreover have "my_read scenario_cfg scenario_env ''/9'' 1 0 = Returns (- 2) []"
    using my_read_errors [where p = "''/9''" and d = "''9''" and cfg = scenario_cfg
        and e = scenario_env and sz = 1 and offset = 0] q9
    by (simp add: ENOENT_def)
  ultimately show ?thesis
    by blast
qed

section \<open>Listing\<close>

lemma emitted_append: "emitted (xs @ ys) = emitted xs @ emitted ys"
  by (induction xs rule: emitted.induct) simp_all

lemma emitted_readdir_loop: "emitted (readdir_loop rows) = rows"
  by (induction rows) simp_all

lemma my_readdir_not_root: "p \<noteq> ''/'' \<Longrightarrow> my_readdir cfg e p = ([], - ENOENT)"
  by (simp add: my_readdir_def)

text \<open>A listing that succeeds hands \<open>.\<close>, \<open>..\<close> and then the names of the rows to \<^verbatim>\<open>filler\<close>.\<close>

lemma my_readdir_rows:
  assumes "malloc_ok e 0"
    and "run_query e (readdir_qp (my_name_field cfg) (my_table cfg) (my_name_field cfg)) = Some rows"
  shows "snd (my_readdir cfg e ''/'') = 0"
    and "emitted (fst (my_readdir cfg e ''/'')) = Some ''.'' # Some ''..'' # rows"
  using assms by (simp_all add: my_readdir_def Let_def emitted_append emitted_readdir_loop)

lemma scenario_listing_query:
  "readdir_qp (my_name_field scenario_cfg) (my_table scenario_cfg) (my_name_field scenario_cfg)
     = ''SELECT id FROM docs ORDER BY id''"
  by (simp add: readdir_qp_def scenario_cfg_def)

lemma my_readdir_scenario:
  "emitted (fst (my_readdir scenario_cfg scenario_env ''/'')) = [Some ''.'', Some ''..'', Some ''1'']"
  "snd (my_readdir scenario_cfg scenario_env ''/'') = 0"
  using my_readdir_rows [of scenario_env scenario_cfg "[Some ''1'']"]
  by (simp_all add: scenario_env_sel scenario_listing_query scenario_db_def)

text \<open>
  Claim C10. In a call of \<open>my_readdir\<close> on \<open>''/''\<close> the two calls of \<^verbatim>\<open>filler\<close> with \<open>.\<close> and
  \<open>..\<close> are the first two events, before the allocation of the query buffer and before
  any query. When the allocation fails the call returns \<open>- ENOMEM\<close>, when the query gives
  no result handle it returns \<open>- ENOENT\<close>, and in both cases exactly \<open>.\<close> and \<open>..\<close> have
  been handed to \<^verbatim>\<open>filler\<close>.
\<close>

theorem my_readdir_dots_first:
  "take 2 (fst (my_readdir cfg e ''/'')) = [Filler (Some ''.''), Filler (Some ''..'')]
   \<and> (\<not> malloc_ok e 0 \<longrightarrow>
        my_readdir cfg e ''/'' = ([Filler (Some ''.''), Filler (Some ''..''), Malloc], - ENOMEM)
        \<and> emitted (fst (my_readdir cfg e ''/'')) = [Some ''.'', Some ''..''])
   \<and> (malloc_ok e 0
        \<and> run_query e (readdir_qp (my_name_field cfg) (my_table cfg) (my_name_field cfg)) = None
        \<longrightarrow> my_readdir cfg e ''/'' =
              ([Filler (Some ''.''), Filler (Some ''..''), Malloc,
                Query (readdir_qp (my_name_field cfg) (my_table cfg) (my_name_field cfg))],
               - ENOENT)
            \<and> emitted (fst (my_readdir cfg e ''/'')) = [Some ''.'', Some ''..''])"
  by (simp add: my_readdir_def Let_def split: option.split)

theorem my_readdir_dots_first_witness:
  "my_readdir scenario_cfg (scenario_env\<lparr>malloc_ok := fails_at 0\<rparr>) ''/''
     = ([Filler (Some ''.''), Filler (Some ''..''), Malloc], - 12)
   \<and> my_readdir scenario_cfg (scenario_env\<lparr>run_query := no_result\<rparr>) ''/''
     = ([Filler (Some ''.''), Filler (Some ''..''), Malloc, Query ''SELECT id FROM docs ORDER BY id''],
        - 2)
   \<and> emitted (fst (my_readdir scenario_cfg (scenario_env\<lparr>malloc_ok := fails_at 0\<rparr>) ''/''))
     = [Some ''.'', Some ''..'']
   \<and> emitted (fst (my_readdir scenario_cfg (scenario_env\<lparr>run_query := no_result\<rparr>) ''/''))
     = [Some ''.'', Some ''..'']"
proof -
  have a: "\<not> malloc_ok (scenario_env\<lparr>malloc_ok := fails_at 0\<rparr>) 0"
    by (simp add: fails_at_def)
  have b: "malloc_ok (scenario_env\<lparr>run_query := no_result\<rparr>) 0
      \<and> run_query (scenario_env\<lparr>run_query := no_result\<rparr>)
          (readdir_qp (my_name_field scenario_cfg) (my_table scenario_cfg) (my_name_field scenario_cfg))
        = None"
    by (simp add: scenario_env_sel no_result_def)
  show ?thesis
    using my_readdir_dots_first [of scenario_cfg "scenario_env\<lparr>malloc_ok := fails_at 0\<rparr>"]
      my_readdir_dots_first [of scenario_cfg "scenario_env\<lparr>run_query := no_result\<rparr>"] a b
    by (simp add: scenario_listing_query ENOMEM_def ENOENT_def)
qed

end
